theory Spec2Isabelle
  imports Complex_Main "HOL-Library.Word"
begin

section \<open>JavaScript values as the extension sees them\<close>

text \<open>
  A JavaScript string is a sequence of UTF-16 code units; \<open>length\<close>, \<open>trim\<close> and
  concatenation all work on code units. \<open>lit\<close> writes an ASCII literal of the source.
\<close>

type_synonym jsstring = "16 word list"

definition lit :: "string \<Rightarrow> jsstring" where
  "lit s = map of_char s"

text \<open>
  \<open>String.prototype.trim\<close> removes the WhiteSpace and LineTerminator code points of
  ECMAScript from both ends: TAB, LF, VT, FF, CR, SP, NBSP, the Unicode space separators,
  LS, PS and the byte order mark.
\<close>

definition isWhiteSpace :: "16 word \<Rightarrow> bool" where
  "isWhiteSpace c \<longleftrightarrow>
     c \<in> set [0x0009, 0x000A, 0x000B, 0x000C, 0x000D, 0x0020, 0x00A0, 0x1680,
              0x2000, 0x2001, 0x2002, 0x2003, 0x2004, 0x2005, 0x2006, 0x2007,
              0x2008, 0x2009, 0x200A, 0x2028, 0x2029, 0x202F, 0x205F, 0x3000, 0xFEFF]"

definition trim :: "jsstring \<Rightarrow> jsstring" where
  "trim s = rev (dropWhile isWhiteSpace (rev (dropWhile isWhiteSpace s)))"

text \<open>
  The values that cross \<open>postMessage\<close> and come out of \<open>JSON.parse\<close>. An object is its
  list of own properties (first binding of a key wins). Numbers are kept only as far as
  truthiness needs them.
\<close>

datatype jsnum = NaN | Infinity bool | Finite rat

datatype jsval =
    JUndefined
  | JNull
  | JBool bool
  | JNum jsnum
  | JStr jsstring
  | JArr "jsval list"
  | JObj "(jsstring \<times> jsval) list"

datatype exn = TypeError | SyntaxError | SystemError jsstring

text \<open>Exceptions are values: \<open>Inl e\<close> is "threw \<open>e\<close>", \<open>Inr v\<close> is "returned \<open>v\<close>".\<close>

definition bindE :: "exn + 'a \<Rightarrow> ('a \<Rightarrow> exn + 'b) \<Rightarrow> exn + 'b" where
  "bindE m f = (case m of Inl e \<Rightarrow> Inl e | Inr v \<Rightarrow> f v)"

text \<open>\<open>!v\<close> is \<open>\<not> truthy v\<close>.\<close>

fun truthy :: "jsval \<Rightarrow> bool" where
  "truthy JUndefined = False"
| "truthy JNull = False"
| "truthy (JBool b) = b"
| "truthy (JNum n) = (n \<noteq> NaN \<and> n \<noteq> Finite 0)"
| "truthy (JStr s) = (s \<noteq> [])"
| "truthy (JArr xs) = True"
| "truthy (JObj kvs) = True"

fun typeof :: "jsval \<Rightarrow> string" where
  "typeof JUndefined = ''undefined''"
| "typeof JNull = ''object''"
| "typeof (JBool b) = ''boolean''"
| "typeof (JNum n) = ''number''"
| "typeof (JStr s) = ''string''"
| "typeof (JArr xs) = ''object''"
| "typeof (JObj kvs) = ''object''"

text \<open>
  Property read \<open>v.key\<close>. Reading from \<open>undefined\<close> or \<open>null\<close> throws. The program reads
  only \<open>command\<close>, \<open>data\<close>, \<open>type\<close>, \<open>scope\<close>, \<open>subject\<close>, \<open>body\<close>, \<open>types\<close>, \<open>id\<close>,
  \<open>label\<close> and \<open>length\<close>; none of them but \<open>length\<close> is on a prototype, so for these keys
  a value that is not an object with that own property yields \<open>undefined\<close>.
\<close>

fun getProp :: "jsval \<Rightarrow> jsstring \<Rightarrow> exn + jsval" where
  "getProp JUndefined key = Inl TypeError"
| "getProp JNull key = Inl TypeError"
| "getProp (JObj kvs) key = Inr (case map_of kvs key of Some v \<Rightarrow> v | None \<Rightarrow> JUndefined)"
| "getProp (JArr xs) key =
     Inr (if key = lit ''length'' then JNum (Finite (of_nat (length xs))) else JUndefined)"
| "getProp (JStr s) key =
     Inr (if key = lit ''length'' then JNum (Finite (of_nat (length s))) else JUndefined)"
| "getProp (JBool b) key = Inr JUndefined"
| "getProp (JNum n) key = Inr JUndefined"

text \<open>
  The method call \<open>v.trim()\<close>: only a string has the method; on \<open>undefined\<close> and \<open>null\<close>
  the property read throws, on any other value \<open>v.trim\<close> is not a function.
\<close>

fun callTrim :: "jsval \<Rightarrow> exn + jsstring" where
  "callTrim (JStr s) = Inr (trim s)"
| "callTrim v = Inl TypeError"

text \<open>
  What the runtime supplies and the repository does not define: the Unicode case mapping
  of \<open>String.prototype.toLowerCase\<close>, the text of an exception
  (\<open>error instanceof Error ? error.message : 'Unknown error'\<close>) and the text that a
  value converts to when its conversion to a string succeeds.
\<close>

record engine =
  toLowerCase :: "jsstring \<Rightarrow> jsstring"
  errorMessage :: "exn \<Rightarrow> jsstring"
  toString :: "jsval \<Rightarrow> jsstring"

text \<open>
  Conversion of an interpolated value to a string can throw. A primitive always converts.
  An object whose own \<open>toString\<close> property is not callable (and no value that crosses
  \<open>postMessage\<close> or leaves \<open>JSON.parse\<close> is callable) has no primitive value: the
  conversion throws a \<open>TypeError\<close>. Without an own \<open>toString\<close> the inherited one
  answers. An array joins the conversions of its elements, \<open>undefined\<close> and \<open>null\<close>
  giving the empty string. The text of a successful conversion is the engine's.
\<close>

fun convertible :: "jsval \<Rightarrow> bool" where
  "convertible (JObj kvs) = (map_of kvs (lit ''toString'') = None)"
| "convertible (JArr xs) = list_all (\<lambda>x. x = JUndefined \<or> x = JNull \<or> convertible x) xs"
| "convertible v = True"

definition interpolate :: "engine \<Rightarrow> jsval \<Rightarrow> exn + jsstring" where
  "interpolate eng v = (if convertible v then Inr (toString eng v) else Inl TypeError)"

section \<open>commitBuilder.ts\<close>

text \<open>
  \<open>FormData\<close> is an interface, erased at run time: \<open>buildCommitMessage\<close> receives whatever
  object the caller passes. \<open>mkFormData\<close> is a value of the declared shape.
\<close>

definition mkFormData :: "jsstring \<Rightarrow> jsstring \<Rightarrow> jsstring \<Rightarrow> jsstring \<Rightarrow> jsval" where
  "mkFormData t scope subject body =
     JObj [(lit ''type'', JStr t), (lit ''scope'', JStr scope),
           (lit ''subject'', JStr subject), (lit ''body'', JStr body)]"

definition formatHeader :: "engine \<Rightarrow> jsval \<Rightarrow> jsval \<Rightarrow> jsval \<Rightarrow> exn + jsstring" where
  "formatHeader eng t scope subject =
     bindE (callTrim t) (\<lambda>trimmedType.
     let cleanType = toLowerCase eng trimmedType in
     bindE (callTrim scope) (\<lambda>cleanScope.
     bindE (callTrim subject) (\<lambda>cleanSubject.
       if cleanScope \<noteq> []
       then Inr (cleanType @ lit ''('' @ cleanScope @ lit ''): '' @ cleanSubject)
       else Inr (cleanType @ lit '': '' @ cleanSubject))))"

definition formatBody :: "jsval \<Rightarrow> exn + jsstring" where
  "formatBody body = callTrim body"

definition buildCommitMessage :: "engine \<Rightarrow> jsval \<Rightarrow> exn + jsstring" where
  "buildCommitMessage eng formData =
     bindE (getProp formData (lit ''type'')) (\<lambda>t.
     bindE (getProp formData (lit ''scope'')) (\<lambda>scope.
     bindE (getProp formData (lit ''subject'')) (\<lambda>subject.
     bindE (formatHeader eng t scope subject) (\<lambda>header.
     bindE (getProp formData (lit ''body'')) (\<lambda>body.
       if \<not> truthy body then Inr header
       else bindE (callTrim body) (\<lambda>trimmed.
         if trimmed \<noteq> []
         then bindE (formatBody body) (\<lambda>b. Inr (header @ lit ''\<newline>\<newline>'' @ b))
         else Inr header))))))"

section \<open>schemaManager.ts\<close>

text \<open>
  The calls the extension makes on its collaborators, in the order made: the file system,
  the console, the output channel, the webview and the commit builder.
\<close>

datatype effect =
    ExistsSync jsstring
  | ReadFileSync jsstring
  | ConsoleError exn
  | AppendLine jsstring
  | PostMessage jsval
  | BuildCall jsval

text \<open>
  The host at the moment of a call: \<open>vscode.workspace.workspaceFolders\<close> (each folder as
  its \<open>uri.fsPath\<close>), \<open>context.extensionPath\<close>, \<open>path.join\<close>, \<open>fs.existsSync\<close>,
  \<open>fs.readFileSync(_, 'utf-8')\<close> and \<open>JSON.parse\<close>.
\<close>

record host =
  workspaceFolders :: "jsstring list option"
  extensionPath :: jsstring
  path_join :: "jsstring list \<Rightarrow> jsstring"
  existsSync :: "jsstring \<Rightarrow> bool"
  readFileSync :: "jsstring \<Rightarrow> exn + jsstring"
  JSON_parse :: "jsstring \<Rightarrow> exn + jsval"

text \<open>The \<open>for (const type of schemaObj.types)\<close> loop of \<open>validateSchema\<close>.\<close>

fun validateTypes :: "jsval list \<Rightarrow> exn + bool" where
  "validateTypes [] = Inr True"
| "validateTypes (t # rest) =
     (if \<not> truthy t \<or> typeof t \<noteq> ''object'' then Inr False
      else bindE (getProp t (lit ''id'')) (\<lambda>idv.
        if \<not> truthy idv \<or> typeof idv \<noteq> ''string'' then Inr False
        else bindE (getProp t (lit ''label'')) (\<lambda>label.
          if \<not> truthy label \<or> typeof label \<noteq> ''string'' then Inr False
          else validateTypes rest)))"

definition validateSchema :: "jsval \<Rightarrow> exn + bool" where
  "validateSchema schema =
     (if \<not> truthy schema \<or> typeof schema \<noteq> ''object'' then Inr False
      else bindE (getProp schema (lit ''types'')) (\<lambda>types.
        case types of
          JArr ts \<Rightarrow> validateTypes ts
        | _ \<Rightarrow> Inr False))"

text \<open>The labels are the code units of the literals in \<open>schemaManager.ts\<close>.\<close>

definition getDefaultSchema :: jsval where
  "getDefaultSchema =
     JObj [(lit ''types'', JArr [
       JObj [(lit ''id'', JStr (lit ''feat'')),
             (lit ''label'', JStr ([0x201A, 0xFA, 0xAE] @ lit '' Fitur Baru''))],
       JObj [(lit ''id'', JStr (lit ''fix'')),
             (lit ''label'', JStr ([0xF8FF, 0xFC, 0xEA, 0xF5] @ lit '' Perbaikan Bug''))],
       JObj [(lit ''id'', JStr (lit ''docs'')),
             (lit ''label'', JStr ([0xF8FF, 0xFC, 0xEC, 0xF9] @ lit '' Dokumentasi''))],
       JObj [(lit ''id'', JStr (lit ''style'')),
             (lit ''label'', JStr ([0xF8FF, 0xFC, 0xED, 0xD1] @ lit '' Styling''))],
       JObj [(lit ''id'', JStr (lit ''refactor'')),
             (lit ''label'',
              JStr ([0x201A, 0xF4, 0xAA, 0xD4, 0x220F, 0xE8] @ lit '' Refactoring''))],
       JObj [(lit ''id'', JStr (lit ''test'')),
             (lit ''label'', JStr ([0x201A, 0xFA, 0xD6] @ lit '' Testing''))],
       JObj [(lit ''id'', JStr (lit ''chore'')),
             (lit ''label'', JStr ([0xF8FF, 0xFC, 0xEE, 0xDF] @ lit '' Chore''))]])]"

text \<open>
  \<open>loadSchema\<close> writes the same four lines twice, once per candidate path: test
  existence, read, parse, validate. \<open>readCandidate\<close> is that block; \<open>Inr (Some schema)\<close> is
  its \<open>return schema\<close>, \<open>Inr None\<close> is falling out of the block, \<open>Inl e\<close> is a throw.
\<close>

definition readCandidate :: "host \<Rightarrow> jsstring \<Rightarrow> effect list \<times> (exn + jsval option)" where
  "readCandidate h schemaPath =
     (if existsSync h schemaPath then
        (case readFileSync h schemaPath of
           Inl e \<Rightarrow> ([ExistsSync schemaPath, ReadFileSync schemaPath], Inl e)
         | Inr schemaContent \<Rightarrow>
             (case JSON_parse h schemaContent of
                Inl e \<Rightarrow> ([ExistsSync schemaPath, ReadFileSync schemaPath], Inl e)
              | Inr schema \<Rightarrow>
                  (case validateSchema schema of
                     Inl e \<Rightarrow> ([ExistsSync schemaPath, ReadFileSync schemaPath], Inl e)
                   | Inr ok \<Rightarrow>
                       ([ExistsSync schemaPath, ReadFileSync schemaPath],
                        Inr (if ok then Some schema else None)))))
      else ([ExistsSync schemaPath], Inr None))"

definition workspaceSchemaPath :: "host \<Rightarrow> jsstring \<Rightarrow> jsstring" where
  "workspaceSchemaPath h workspacePath =
     path_join h [workspacePath, lit ''.vscode'', lit ''commit-types.json'']"

definition extensionSchemaPath :: "host \<Rightarrow> jsstring" where
  "extensionSchemaPath h =
     path_join h [extensionPath h, lit ''resources'', lit ''commit-types.json'']"

text \<open>The body of the \<open>try\<close> in \<open>loadSchema\<close>: one \<open>try\<close> around both candidates.\<close>

definition loadSchema_try :: "host \<Rightarrow> effect list \<times> (exn + jsval option)" where
  "loadSchema_try h =
     (case (case workspaceFolders h of
              Some (folder # others) \<Rightarrow> readCandidate h (workspaceSchemaPath h folder)
            | _ \<Rightarrow> ([], Inr None)) of
        (fx, Inl e) \<Rightarrow> (fx, Inl e)
      | (fx, Inr (Some schema)) \<Rightarrow> (fx, Inr (Some schema))
      | (fx, Inr None) \<Rightarrow>
          (case readCandidate h (extensionSchemaPath h) of
             (fx', r) \<Rightarrow> (fx @ fx', r)))"

definition loadSchema :: "host \<Rightarrow> effect list \<times> jsval" where
  "loadSchema h =
     (case loadSchema_try h of
        (fx, Inr (Some schema)) \<Rightarrow> (fx, schema)
      | (fx, Inr None) \<Rightarrow> (fx, getDefaultSchema)
      | (fx, Inl e) \<Rightarrow> (fx @ [ConsoleError e], getDefaultSchema))"

section \<open>messageHandler.ts\<close>

text \<open>
  The webview panel the handler holds: \<open>Absent\<close> when \<open>this.panel\<close> or
  \<open>this.panel.webview\<close> is falsy, \<open>Broken e\<close> when reaching the webview or posting to it
  throws \<open>e\<close> (a disposed panel), \<open>Ready\<close> when \<open>postMessage\<close> goes through.
\<close>

datatype panel = Absent | Broken exn | Ready

text \<open>
  \<open>try { body } catch (error) { handler }\<close>: the body yields the calls it made and, when
  it threw, the exception.
\<close>

definition try_catch :: "effect list \<times> exn option \<Rightarrow> (exn \<Rightarrow> effect list) \<Rightarrow> effect list" where
  "try_catch body handler =
     (case body of (fx, None) \<Rightarrow> fx | (fx, Some e) \<Rightarrow> fx @ handler e)"

definition mkMessage :: "jsstring \<Rightarrow> jsval \<Rightarrow> jsval" where
  "mkMessage command data = JObj [(lit ''command'', JStr command), (lit ''data'', data)]"

definition sendToWebview :: "engine \<Rightarrow> panel \<Rightarrow> jsstring \<Rightarrow> jsval \<Rightarrow> effect list" where
  "sendToWebview eng p command data =
     (case p of
        Absent \<Rightarrow> [AppendLine (lit ''Error: Cannot send message, webview is disposed'')]
      | Broken e \<Rightarrow>
          [AppendLine (lit ''Error sending message to webview: '' @ errorMessage eng e)]
      | Ready \<Rightarrow>
          [PostMessage (mkMessage command data),
           AppendLine (lit ''Sent message: '' @ command)])"

definition handleLoadSchema :: "engine \<Rightarrow> host \<Rightarrow> panel \<Rightarrow> effect list" where
  "handleLoadSchema eng h p =
     try_catch
       (case loadSchema h of
          (fx, schema) \<Rightarrow>
            (case bindE (getProp schema (lit ''types'')) (\<lambda>types.
                  bindE (getProp types (lit ''length'')) (interpolate eng)) of
               Inl e \<Rightarrow> (fx, Some e)
             | Inr n \<Rightarrow>
                 (fx @ [AppendLine (lit ''Schema loaded with '' @ n @ lit '' types'')]
                     @ sendToWebview eng p (lit ''schemaData'') schema,
                  None)))
       (\<lambda>e. AppendLine (lit ''Error loading schema: '' @ errorMessage eng e)
             # sendToWebview eng p (lit ''error'') (JStr (lit ''Gagal memuat daftar type commit'')))"

definition handleWebviewReady :: "engine \<Rightarrow> host \<Rightarrow> panel \<Rightarrow> effect list" where
  "handleWebviewReady eng h p =
     try_catch
       (AppendLine (lit ''Webview ready, loading schema...'') # handleLoadSchema eng h p, None)
       (\<lambda>e. AppendLine (lit ''Error in handleWebviewReady: '' @ errorMessage eng e)
             # sendToWebview eng p (lit ''error'') (JStr (lit ''Gagal memuat schema'')))"

text \<open>The test \<open>!formData.key || !formData.key.trim()\<close> of \<open>handleSubmitForm\<close>.\<close>

definition fieldMissing :: "jsval \<Rightarrow> jsstring \<Rightarrow> exn + bool" where
  "fieldMissing formData key =
     bindE (getProp formData key) (\<lambda>v.
       if \<not> truthy v then Inr True
       else bindE (callTrim v) (\<lambda>trimmed. Inr (trimmed = [])))"

definition handleSubmitForm_try :: "engine \<Rightarrow> panel \<Rightarrow> jsval \<Rightarrow> effect list \<times> exn option" where
  "handleSubmitForm_try eng p data =
     (if \<not> truthy data \<or> typeof data \<noteq> ''object'' then
        (AppendLine (lit ''Error: Invalid form data'')
           # sendToWebview eng p (lit ''error'') (JStr (lit ''Data form tidak valid'')), None)
      else
        (case fieldMissing data (lit ''type'') of
           Inl e \<Rightarrow> ([], Some e)
         | Inr True \<Rightarrow>
             (AppendLine (lit ''Error: Type is required'')
                # sendToWebview eng p (lit ''error'') (JStr (lit ''Type commit harus diisi'')), None)
         | Inr False \<Rightarrow>
             (case fieldMissing data (lit ''subject'') of
                Inl e \<Rightarrow> ([], Some e)
              | Inr True \<Rightarrow>
                  (AppendLine (lit ''Error: Subject is required'')
                     # sendToWebview eng p (lit ''error'') (JStr (lit ''Subject commit harus diisi'')),
                   None)
              | Inr False \<Rightarrow>
                  (case buildCommitMessage eng data of
                     Inl e \<Rightarrow>
                       ([AppendLine (lit ''Building commit message...''), BuildCall data], Some e)
                   | Inr commitMessage \<Rightarrow>
                       ([AppendLine (lit ''Building commit message...''), BuildCall data,
                         AppendLine (lit ''Commit message created:\<newline>'' @ commitMessage)]
                          @ sendToWebview eng p (lit ''commitResult'') (JStr commitMessage),
                        None)))))"

definition handleSubmitForm :: "engine \<Rightarrow> panel \<Rightarrow> jsval \<Rightarrow> effect list" where
  "handleSubmitForm eng p data =
     try_catch (handleSubmitForm_try eng p data)
       (\<lambda>e. AppendLine (lit ''Error in handleSubmitForm: '' @ errorMessage eng e)
             # sendToWebview eng p (lit ''error'') (JStr (lit ''Gagal membuat commit message'')))"

text \<open>
  The \<open>switch (message.command)\<close> compares with \<open>===\<close>, case by case; the default case
  interpolates the command into its warning.
\<close>

definition dispatch :: "engine \<Rightarrow> host \<Rightarrow> panel \<Rightarrow> jsval \<Rightarrow> jsval \<Rightarrow> effect list \<times> exn option" where
  "dispatch eng h p message command =
     (if command = JStr (lit ''webviewReady'') then (handleWebviewReady eng h p, None)
      else if command = JStr (lit ''loadSchema'') then (handleLoadSchema eng h p, None)
      else if command = JStr (lit ''submitForm'') then
        (case getProp message (lit ''data'') of
           Inl e \<Rightarrow> ([], Some e)
         | Inr data \<Rightarrow> (handleSubmitForm eng p data, None))
      else
        (case interpolate eng command of
           Inl e \<Rightarrow> ([], Some e)
         | Inr text \<Rightarrow> ([AppendLine (lit ''Warning: Unknown command: '' @ text)], None)))"

definition invalidFormat :: "engine \<Rightarrow> panel \<Rightarrow> effect list" where
  "invalidFormat eng p =
     AppendLine (lit ''Error: Invalid message format received'')
       # sendToWebview eng p (lit ''error'') (JStr (lit ''Format message tidak valid''))"

text \<open>
  The log line \<open>Received message: ...\<close> interpolates the command before the \<open>switch\<close>;
  when that conversion throws, the \<open>catch\<close> of \<open>handleMessage\<close> answers.
\<close>

definition handleMessage :: "engine \<Rightarrow> host \<Rightarrow> panel \<Rightarrow> jsval \<Rightarrow> effect list" where
  "handleMessage eng h p message =
     try_catch
       (if \<not> truthy message \<or> typeof message \<noteq> ''object'' then (invalidFormat eng p, None)
        else
          (case getProp message (lit ''command'') of
             Inl e \<Rightarrow> ([], Some e)
           | Inr command \<Rightarrow>
               if \<not> truthy command then (invalidFormat eng p, None)
               else
                 (case interpolate eng command of
                    Inl e \<Rightarrow> ([], Some e)
                  | Inr text \<Rightarrow>
                      (case dispatch eng h p message command of
                         (fx, r) \<Rightarrow> (AppendLine (lit ''Received message: '' @ text) # fx, r)))))
       (\<lambda>e. AppendLine (lit ''Error handling message: '' @ errorMessage eng e)
             # sendToWebview eng p (lit ''error'')
                 (JStr (lit ''Terjadi kesalahan: '' @ errorMessage eng e)))"

text \<open>What a trace posted to the webview, and the builder calls it made.\<close>

fun posted :: "effect list \<Rightarrow> jsval list" where
  "posted [] = []"
| "posted (PostMessage m # fx) = m # posted fx"
| "posted (x # fx) = posted fx"

fun builderCalls :: "effect list \<Rightarrow> jsval list" where
  "builderCalls [] = []"
| "builderCalls (BuildCall d # fx) = d # builderCalls fx"
| "builderCalls (x # fx) = builderCalls fx"

fun filesRead :: "effect list \<Rightarrow> jsstring list" where
  "filesRead [] = []"
| "filesRead (ReadFileSync f # fx) = f # filesRead fx"
| "filesRead (x # fx) = filesRead fx"

section \<open>The specification's vocabulary\<close>

text \<open>
  A catalog in the specification's words: a top-level object with a \<open>types\<close> field that
  is a sequence, every element an object with a non-empty string \<open>id\<close> and a non-empty
  string \<open>label\<close>.
\<close>

definition nonEmptyString :: "jsval option \<Rightarrow> bool" where
  "nonEmptyString v = (case v of Some (JStr s) \<Rightarrow> s \<noteq> [] | _ \<Rightarrow> False)"

definition isCommitType :: "jsval \<Rightarrow> bool" where
  "isCommitType t =
     (case t of
        JObj kvs \<Rightarrow>
          nonEmptyString (map_of kvs (lit ''id'')) \<and> nonEmptyString (map_of kvs (lit ''label''))
      | _ \<Rightarrow> False)"

definition isCatalog :: "jsval \<Rightarrow> bool" where
  "isCatalog schema =
     (case schema of
        JObj kvs \<Rightarrow>
          (case map_of kvs (lit ''types'') of
             Some (JArr ts) \<Rightarrow> list_all isCommitType ts
           | _ \<Rightarrow> False)
      | _ \<Rightarrow> False)"

text \<open>The ids of a catalog, in order.\<close>

definition typeIds :: "jsval \<Rightarrow> jsstring list" where
  "typeIds schema =
     (case getProp schema (lit ''types'') of
        Inr (JArr ts) \<Rightarrow>
          map (\<lambda>t. case getProp t (lit ''id'') of Inr (JStr s) \<Rightarrow> s | _ \<Rightarrow> []) ts
      | _ \<Rightarrow> [])"

text \<open>
  A candidate source that yields no catalog: the path is missing, or reading it fails, or
  its content is not JSON, or the JSON has the wrong shape.
\<close>

definition candidateFails :: "host \<Rightarrow> jsstring \<Rightarrow> bool" where
  "candidateFails h path =
     (\<not> existsSync h path \<or>
      (case readFileSync h path of
         Inl e \<Rightarrow> True
       | Inr content \<Rightarrow>
           (case JSON_parse h content of
              Inl e \<Rightarrow> True
            | Inr schema \<Rightarrow> \<not> isCatalog schema)))"

text \<open>
  A field of a payload as the handler reads it (\<open>undefined\<close> when absent), and a field
  that is a string with something left after trimming.
\<close>

definition fieldOf :: "jsval \<Rightarrow> jsstring \<Rightarrow> jsval" where
  "fieldOf v key = (case getProp v key of Inr x \<Rightarrow> x | Inl e \<Rightarrow> JUndefined)"

definition nonBlank :: "jsval \<Rightarrow> bool" where
  "nonBlank v = (case v of JStr s \<Rightarrow> trim s \<noteq> [] | _ \<Rightarrow> False)"

definition isString :: "jsval \<Rightarrow> bool" where
  "isString v = (case v of JStr s \<Rightarrow> True | _ \<Rightarrow> False)"

definition isObject :: "jsval \<Rightarrow> bool" where
  "isObject v \<longleftrightarrow> truthy v \<and> typeof v = ''object''"

text \<open>
  The two ways a candidate yields no catalog: it is skipped (the path is missing, or the
  JSON has the wrong shape), or reading or parsing it throws.
\<close>

definition candidateSkipped :: "host \<Rightarrow> jsstring \<Rightarrow> bool" where
  "candidateSkipped h path =
     (\<not> existsSync h path \<or>
      (case readFileSync h path of
         Inl e \<Rightarrow> False
       | Inr content \<Rightarrow>
           (case JSON_parse h content of
              Inl e \<Rightarrow> False
            | Inr schema \<Rightarrow> \<not> isCatalog schema)))"

definition candidateError :: "host \<Rightarrow> jsstring \<Rightarrow> exn option" where
  "candidateError h path =
     (if existsSync h path then
        (case readFileSync h path of
           Inl e \<Rightarrow> Some e
         | Inr content \<Rightarrow>
             (case JSON_parse h content of
                Inl e \<Rightarrow> Some e
              | Inr schema \<Rightarrow> None))
      else None)"

definition candidateCatalog :: "host \<Rightarrow> jsstring \<Rightarrow> jsval option" where
  "candidateCatalog h path =
     (if existsSync h path then
        (case readFileSync h path of
           Inl e \<Rightarrow> None
         | Inr content \<Rightarrow>
             (case JSON_parse h content of
                Inl e \<Rightarrow> None
              | Inr schema \<Rightarrow> if isCatalog schema then Some schema else None))
      else None)"

section \<open>Concrete runtimes for the examples\<close>

text \<open>
  An engine whose \<open>toLowerCase\<close> maps A to Z only, which is what every engine does on
  ASCII text, and whose string conversion is the identity on strings.
\<close>

definition asciiLower :: "16 word \<Rightarrow> 16 word" where
  "asciiLower c = (if 0x41 \<le> c \<and> c \<le> 0x5A then c + 0x20 else c)"

definition demoEngine :: engine where
  "demoEngine =
     \<lparr>toLowerCase = map asciiLower,
      errorMessage = (\<lambda>e. lit ''error''),
      toString = (\<lambda>v. case v of JStr s \<Rightarrow> s | _ \<Rightarrow> lit ''[value]'')\<rparr>"

text \<open>
  A file system given as a table from path to the outcome of reading it, \<open>path.join\<close>
  with \<open>/\<close>, and \<open>JSON.parse\<close> on the three texts the examples use.
\<close>

fun joinPath :: "jsstring list \<Rightarrow> jsstring" where
  "joinPath [] = lit ''.''"
| "joinPath [x] = x"
| "joinPath (x # xs) = x @ lit ''/'' @ joinPath xs"

definition emptyTypesText :: jsstring where
  "emptyTypesText = lit ''{\"types\": []}''"

definition emptyTypes :: jsval where
  "emptyTypes = JObj [(lit ''types'', JArr [])]"

definition customText :: jsstring where
  "customText = lit ''{\"types\": [{\"id\": \"wip\", \"label\": \"Work in progress\"}]}''"

definition customCatalog :: jsval where
  "customCatalog =
     JObj [(lit ''types'',
            JArr [JObj [(lit ''id'', JStr (lit ''wip'')),
                        (lit ''label'', JStr (lit ''Work in progress''))]])]"

definition malformedText :: jsstring where
  "malformedText = lit ''{\"types\": [''"

definition demoParse :: "jsstring \<Rightarrow> exn + jsval" where
  "demoParse content =
     (if content = emptyTypesText then Inr emptyTypes
      else if content = customText then Inr customCatalog
      else Inl SyntaxError)"

definition demoHost :: "jsstring list option \<Rightarrow> (jsstring \<times> (exn + jsstring)) list \<Rightarrow> host" where
  "demoHost folders files =
     \<lparr>workspaceFolders = folders,
      extensionPath = lit ''/ext'',
      path_join = joinPath,
      existsSync = (\<lambda>path. map_of files path \<noteq> None),
      readFileSync =
        (\<lambda>path. case map_of files path of
                   Some r \<Rightarrow> r
                 | None \<Rightarrow> Inl (SystemError (lit ''ENOENT''))),
      JSON_parse = demoParse\<rparr>"

definition workspaceFile :: jsstring where
  "workspaceFile = lit ''/ws/.vscode/commit-types.json''"

definition extensionFile :: jsstring where
  "extensionFile = lit ''/ext/resources/commit-types.json''"

text \<open>Three file systems: a malformed, a valid and an empty-list workspace file.\<close>

definition malformedFirstHost :: host where
  "malformedFirstHost =
     demoHost (Some [lit ''/ws''])
       [(workspaceFile, Inr malformedText), (extensionFile, Inr customText)]"

definition validFirstHost :: host where
  "validFirstHost =
     demoHost (Some [lit ''/ws''])
       [(workspaceFile, Inr customText), (extensionFile, Inr emptyTypesText)]"

definition emptyTypesHost :: host where
  "emptyTypesHost =
     demoHost (Some [lit ''/ws''])
       [(workspaceFile, Inr emptyTypesText), (extensionFile, Inr customText)]"

definition nothingValidHost :: host where
  "nothingValidHost = demoHost None [(extensionFile, Inr malformedText)]"

text \<open>Payloads and messages for the examples.\<close>

definition noScopePayload :: jsval where
  "noScopePayload = JObj [(lit ''type'', JStr (lit ''feat'')), (lit ''subject'', JStr (lit ''x''))]"

definition fullPayload :: jsval where
  "fullPayload = mkFormData (lit ''FIX'') (lit []) (lit ''perbaiki bug'') (lit [])"

definition emptyCommandMessage :: jsval where
  "emptyCommandMessage = JObj [(lit ''command'', JStr [])]"

definition pingMessage :: jsval where
  "pingMessage = JObj [(lit ''command'', JStr (lit ''ping''))]"

definition unprintableMessage :: jsval where
  "unprintableMessage = JObj [(lit ''command'', JObj [(lit ''toString'', JNull)])]"

section \<open>Trimming\<close>

lemma trim_Nil [simp]: "trim [] = []"
  by (simp add: trim_def)

lemma dropWhile_rev_split:
  "d = rev (dropWhile P (rev d)) @ rev (takeWhile P (rev d))"
proof -
  have "d = rev (takeWhile P (rev d) @ dropWhile P (rev d))"
    by (simp only: takeWhile_dropWhile_id rev_rev_ident)
  also have "\<dots> = rev (dropWhile P (rev d)) @ rev (takeWhile P (rev d))"
    by (rule rev_append)
  finally show ?thesis .
qed

lemma all_takeWhile: "list_all P (takeWhile P xs)"
  by (induction xs) simp_all

lemma trim_decomp:
  "\<exists>pre suf. s = pre @ trim s @ suf \<and> list_all isWhiteSpace pre \<and> list_all isWhiteSpace suf"
proof -
  let ?d = "dropWhile isWhiteSpace s"
  let ?suf = "rev (takeWhile isWhiteSpace (rev ?d))"
  have a: "s = takeWhile isWhiteSpace s @ ?d" by simp
  have c: "?d = trim s @ ?suf"
    unfolding trim_def by (rule dropWhile_rev_split)
  have "s = takeWhile isWhiteSpace s @ trim s @ ?suf"
    using a c by metis
  moreover have "list_all isWhiteSpace (takeWhile isWhiteSpace s)"
    by (rule all_takeWhile)
  moreover have "list_all isWhiteSpace ?suf"
    using all_takeWhile [of isWhiteSpace "rev ?d"] by (simp add: list_all_iff)
  ultimately show ?thesis by blast
qed

lemma trim_last: "trim s \<noteq> [] \<Longrightarrow> \<not> isWhiteSpace (last (trim s))"
  unfolding trim_def
  by (simp add: last_rev hd_dropWhile)

lemma trim_hd: "trim s \<noteq> [] \<Longrightarrow> \<not> isWhiteSpace (hd (trim s))"
proof -
  assume ne: "trim s \<noteq> []"
  let ?d = "dropWhile isWhiteSpace s"
  have dne: "?d \<noteq> []"
  proof
    assume e: "?d = []"
    have "trim s = []" unfolding trim_def e by simp
    with ne show False by simp
  qed
  have nw: "\<not> isWhiteSpace (hd ?d)" using dne by (rule hd_dropWhile)
  have "?d = trim s @ rev (takeWhile isWhiteSpace (rev ?d))"
    unfolding trim_def by (rule dropWhile_rev_split)
  then have "hd ?d = hd (trim s)" using ne by (metis hd_append2)
  with nw show ?thesis by simp
qed

section \<open>The formatter on well-typed form data\<close>

lemma build_wellTyped:
  "buildCommitMessage eng (mkFormData t scope subject body) =
     Inr ((if trim scope \<noteq> []
           then toLowerCase eng (trim t) @ lit ''('' @ trim scope @ lit ''): '' @ trim subject
           else toLowerCase eng (trim t) @ lit '': '' @ trim subject)
          @ (if trim body \<noteq> [] then lit ''\<newline>\<newline>'' @ trim body else []))"
  by (cases "body = []")
     (simp_all add: buildCommitMessage_def mkFormData_def formatHeader_def formatBody_def
        bindE_def lit_def)

lemma header_wellTyped:
  "formatHeader eng (JStr t) (JStr scope) (JStr subject) =
     Inr (if trim scope \<noteq> []
          then toLowerCase eng (trim t) @ lit ''('' @ trim scope @ lit ''): '' @ trim subject
          else toLowerCase eng (trim t) @ lit '': '' @ trim subject)"
  by (simp add: formatHeader_def bindE_def)

lemma isWhiteSpace_LF: "isWhiteSpace 0x0A"
  by (simp add: isWhiteSpace_def)

lemma last_after_colon:
  assumes "ys = [] \<or> \<not> isWhiteSpace (last ys)"
  shows "last (xs @ lit '': '' @ ys) \<noteq> 0x0A"
proof (cases "ys = []")
  case True
  then show ?thesis by (simp add: lit_def)
next
  case False
  with assms have "\<not> isWhiteSpace (last ys)" by simp
  with isWhiteSpace_LF have "last ys \<noteq> 0x0A" by metis
  with False show ?thesis by simp
qed

lemma header_last:
  assumes "formatHeader eng (JStr t) (JStr scope) (JStr subject) = Inr header"
  shows "header \<noteq> [] \<and> last header \<noteq> 0x0A"
proof -
  have ws: "trim subject = [] \<or> \<not> isWhiteSpace (last (trim subject))"
    using trim_last by blast
  show ?thesis
  proof (cases "trim scope \<noteq> []")
    case True
    with assms have h: "header = (toLowerCase eng (trim t) @ lit ''('' @ trim scope @ lit '')'') @ lit '': '' @ trim subject"
      by (simp add: header_wellTyped lit_def)
    show ?thesis unfolding h using last_after_colon [OF ws] by (simp add: lit_def)
  next
    case False
    with assms have h: "header = toLowerCase eng (trim t) @ lit '': '' @ trim subject"
      by (simp add: header_wellTyped)
    show ?thesis unfolding h using last_after_colon [OF ws] by (simp add: lit_def)
  qed
qed

text \<open>
  Claim C1. For well-typed form data the header is the lower-cased trimmed type, then the
  trimmed scope in parentheses when it is non-empty, then a colon, a space and the trimmed
  subject; the output starts with that header, and with an empty body it is the header
  alone.
\<close>
theorem formatter_header:
  "formatHeader eng (JStr t) (JStr scope) (JStr subject) =
     Inr (if trim scope \<noteq> []
          then toLowerCase eng (trim t) @ lit ''('' @ trim scope @ lit ''): '' @ trim subject
          else toLowerCase eng (trim t) @ lit '': '' @ trim subject)
   \<and> (\<exists>header rest.
         formatHeader eng (JStr t) (JStr scope) (JStr subject) = Inr header
         \<and> buildCommitMessage eng (mkFormData t scope subject body) = Inr (header @ rest))
   \<and> (trim t \<noteq> [] \<and> trim subject \<noteq> [] \<and> trim scope = [] \<and> trim body = [] \<longrightarrow>
         buildCommitMessage eng (mkFormData t scope subject body) =
           Inr (toLowerCase eng (trim t) @ lit '': '' @ trim subject))
   \<and> (trim t \<noteq> [] \<and> trim subject \<noteq> [] \<and> trim scope \<noteq> [] \<and> trim body = [] \<longrightarrow>
         buildCommitMessage eng (mkFormData t scope subject body) =
           Inr (toLowerCase eng (trim t) @ lit ''('' @ trim scope @ lit ''): '' @ trim subject))"
  by (simp add: header_wellTyped build_wellTyped)

theorem formatter_header_witness:
  "buildCommitMessage demoEngine
     (mkFormData (lit '' FIX '') (lit []) (lit ''perbaiki bug'') (lit [])) =
   Inr (lit ''fix: perbaiki bug'')"
proof -
  have h: "trim (lit '' FIX '') \<noteq> [] \<and> trim (lit ''perbaiki bug'') \<noteq> []
           \<and> trim (lit []) = [] \<and> trim (lit []) = []"
    by code_simp
  from formatter_header [of demoEngine "lit '' FIX ''" "lit []" "lit ''perbaiki bug''" "lit []"] h
  have "buildCommitMessage demoEngine
          (mkFormData (lit '' FIX '') (lit []) (lit ''perbaiki bug'') (lit [])) =
        Inr (toLowerCase demoEngine (trim (lit '' FIX '')) @ lit '': '' @ trim (lit ''perbaiki bug''))"
    by blast
  also have "\<dots> = Inr (lit ''fix: perbaiki bug'')"
    by code_simp
  finally show ?thesis .
qed

text \<open>
  Claim C2. When the body has something left after trimming, the output is the header, two
  line feeds and the trimmed body: the header does not end in a line feed and the trimmed
  body neither starts nor ends with white space, so one blank line separates them. Trimming
  removes only white space at the two ends of the body. When the body trims to nothing the
  output is the header alone.
\<close>
theorem formatter_body:
  "(trim body \<noteq> [] \<longrightarrow>
      (\<exists>header.
         formatHeader eng (JStr t) (JStr scope) (JStr subject) = Inr header
         \<and> buildCommitMessage eng (mkFormData t scope subject body) =
             Inr (header @ lit ''\<newline>\<newline>'' @ trim body)
         \<and> header \<noteq> [] \<and> last header \<noteq> 0x0A
         \<and> \<not> isWhiteSpace (hd (trim body)) \<and> \<not> isWhiteSpace (last (trim body))))
   \<and> (\<exists>pre suf. body = pre @ trim body @ suf
         \<and> list_all isWhiteSpace pre \<and> list_all isWhiteSpace suf)
   \<and> (trim body = [] \<longrightarrow>
      (\<exists>header.
         formatHeader eng (JStr t) (JStr scope) (JStr subject) = Inr header
         \<and> buildCommitMessage eng (mkFormData t scope subject body) = Inr header))"
proof (intro conjI impI)
  assume ne: "trim body \<noteq> []"
  obtain header where h: "formatHeader eng (JStr t) (JStr scope) (JStr subject) = Inr header"
    by (simp add: header_wellTyped)
  have "buildCommitMessage eng (mkFormData t scope subject body) =
          Inr (header @ lit ''\<newline>\<newline>'' @ trim body)"
    using h ne by (simp add: build_wellTyped header_wellTyped split: if_splits)
  with h header_last [OF h] trim_hd [OF ne] trim_last [OF ne]
  show "\<exists>header.
         formatHeader eng (JStr t) (JStr scope) (JStr subject) = Inr header
         \<and> buildCommitMessage eng (mkFormData t scope subject body) =
             Inr (header @ lit ''\<newline>\<newline>'' @ trim body)
         \<and> header \<noteq> [] \<and> last header \<noteq> 0x0A
         \<and> \<not> isWhiteSpace (hd (trim body)) \<and> \<not> isWhiteSpace (last (trim body))"
    by blast
next
  show "\<exists>pre suf. body = pre @ trim body @ suf
         \<and> list_all isWhiteSpace pre \<and> list_all isWhiteSpace suf"
    by (rule trim_decomp)
next
  assume "trim body = []"
  then show "\<exists>header.
         formatHeader eng (JStr t) (JStr scope) (JStr subject) = Inr header
         \<and> buildCommitMessage eng (mkFormData t scope subject body) = Inr header"
    by (simp add: build_wellTyped header_wellTyped)
qed

theorem formatter_body_witness:
  "buildCommitMessage demoEngine
     (mkFormData (lit ''feat'') (lit ''auth'') (lit ''tambah login'')
        (lit '' - satu\<newline>\<newline>  - dua\<newline>'')) =
   Inr (lit ''feat(auth): tambah login\<newline>\<newline>- satu\<newline>\<newline>  - dua'')"
proof -
  have ne: "trim (lit '' - satu\<newline>\<newline>  - dua\<newline>'') \<noteq> []"
    by code_simp
  from formatter_body [of "lit '' - satu\<newline>\<newline>  - dua\<newline>''" demoEngine
      "lit ''feat''" "lit ''auth''" "lit ''tambah login''"] ne
  obtain header where
    h: "formatHeader demoEngine (JStr (lit ''feat'')) (JStr (lit ''auth''))
          (JStr (lit ''tambah login'')) = Inr header"
    and b: "buildCommitMessage demoEngine
         (mkFormData (lit ''feat'') (lit ''auth'') (lit ''tambah login'')
            (lit '' - satu\<newline>\<newline>  - dua\<newline>'')) =
       Inr (header @ lit ''\<newline>\<newline>'' @ trim (lit '' - satu\<newline>\<newline>  - dua\<newline>''))"
    by blast
  have "formatHeader demoEngine (JStr (lit ''feat'')) (JStr (lit ''auth''))
          (JStr (lit ''tambah login'')) = Inr (lit ''feat(auth): tambah login'')"
    by code_simp
  with h have "header = lit ''feat(auth): tambah login''" by simp
  with b have "buildCommitMessage demoEngine
         (mkFormData (lit ''feat'') (lit ''auth'') (lit ''tambah login'')
            (lit '' - satu\<newline>\<newline>  - dua\<newline>'')) =
       Inr (lit ''feat(auth): tambah login'' @ lit ''\<newline>\<newline>''
              @ trim (lit '' - satu\<newline>\<newline>  - dua\<newline>''))"
    by simp
  also have "\<dots> = Inr (lit ''feat(auth): tambah login\<newline>\<newline>- satu\<newline>\<newline>  - dua'')"
    by code_simp
  finally show ?thesis .
qed

text \<open>
  Claim C6. On string fields the formatter always returns a string, never an exception;
  with a blank type and scope and a subject that is not blank it returns a colon, a space
  and the trimmed subject. (Lower-casing the empty string gives the empty string in every
  engine; the theorem asks that of the engine it is given.)
\<close>
theorem formatter_total:
  "(\<exists>out. buildCommitMessage eng (mkFormData t scope subject body) = Inr out)
   \<and> (toLowerCase eng [] = [] \<and> trim t = [] \<and> trim scope = [] \<and> trim subject \<noteq> []
        \<and> trim body = [] \<longrightarrow>
      buildCommitMessage eng (mkFormData t scope subject body) = Inr (lit '': '' @ trim subject))"
  by (simp add: build_wellTyped)

theorem formatter_total_witness:
  "buildCommitMessage demoEngine (mkFormData (lit []) (lit []) (lit ''subject'') (lit []))
     = Inr (lit '': subject'')"
proof -
  have h: "toLowerCase demoEngine [] = [] \<and> trim (lit []) = [] \<and> trim (lit []) = []
           \<and> trim (lit ''subject'') \<noteq> [] \<and> trim (lit []) = []"
    by code_simp
  from formatter_total [of demoEngine "lit []" "lit []" "lit ''subject''" "lit []"] h
  have "buildCommitMessage demoEngine (mkFormData (lit []) (lit []) (lit ''subject'') (lit []))
          = Inr (lit '': '' @ trim (lit ''subject''))"
    by blast
  also have "\<dots> = Inr (lit '': subject'')"
    by code_simp
  finally show ?thesis .
qed

section \<open>Schema validation and resolution\<close>

lemma validateTypes_spec: "validateTypes ts = Inr (list_all isCommitType ts)"
proof (induction ts)
  case Nil
  show ?case by simp
next
  case (Cons t ts)
  show ?case
  proof (cases t)
    case (JObj kvs)
    show ?thesis
      unfolding JObj
      by (simp add: Cons.IH isCommitType_def nonEmptyString_def bindE_def
            split: option.splits jsval.splits)
  qed (simp_all add: isCommitType_def bindE_def)
qed

lemma validateSchema_spec: "validateSchema schema = Inr (isCatalog schema)"
proof (cases schema)
  case (JObj kvs)
  show ?thesis
    unfolding JObj
    by (simp add: validateSchema_def isCatalog_def bindE_def validateTypes_spec
          split: option.splits jsval.splits)
qed (simp_all add: validateSchema_def isCatalog_def bindE_def)

lemma readCandidate_cases:
  "readCandidate h path =
     (if \<not> existsSync h path then ([ExistsSync path], Inr None)
      else case readFileSync h path of
             Inl e \<Rightarrow> ([ExistsSync path, ReadFileSync path], Inl e)
           | Inr content \<Rightarrow>
               (case JSON_parse h content of
                  Inl e \<Rightarrow> ([ExistsSync path, ReadFileSync path], Inl e)
                | Inr schema \<Rightarrow>
                    ([ExistsSync path, ReadFileSync path],
                     Inr (if isCatalog schema then Some schema else None))))"
  by (simp add: readCandidate_def validateSchema_spec split: sum.splits)

lemma readCandidate_error:
  "candidateError h path = Some e \<Longrightarrow>
     readCandidate h path = ([ExistsSync path, ReadFileSync path], Inl e)"
  by (auto simp: readCandidate_cases candidateError_def split: sum.splits if_splits)

lemma readCandidate_skipped:
  "candidateSkipped h path \<Longrightarrow> snd (readCandidate h path) = Inr None"
  by (auto simp: readCandidate_cases candidateSkipped_def split: sum.splits)

lemma readCandidate_found:
  "candidateCatalog h path = Some schema \<Longrightarrow>
     readCandidate h path = ([ExistsSync path, ReadFileSync path], Inr (Some schema))"
  by (auto simp: readCandidate_cases candidateCatalog_def split: sum.splits if_splits)

lemma readCandidate_result:
  "snd (readCandidate h path) = Inr (Some schema) \<Longrightarrow> isCatalog schema"
  by (auto simp: readCandidate_cases split: sum.splits if_splits)

lemma candidateFails_split:
  "candidateFails h path \<longleftrightarrow> candidateSkipped h path \<or> (\<exists>e. candidateError h path = Some e)"
  by (auto simp: candidateFails_def candidateSkipped_def candidateError_def split: sum.splits)

lemma default_isCatalog: "isCatalog getDefaultSchema"
  by (simp add: isCatalog_def getDefaultSchema_def isCommitType_def nonEmptyString_def lit_def)

lemma default_ids:
  "typeIds getDefaultSchema =
     [lit ''feat'', lit ''fix'', lit ''docs'', lit ''style'', lit ''refactor'', lit ''test'',
      lit ''chore'']"
  by (simp add: typeIds_def getDefaultSchema_def lit_def)

text \<open>The first candidate of a host: the workspace file of the first folder, if any.\<close>

lemma loadSchema_no_folder:
  "workspaceFolders h = None \<or> workspaceFolders h = Some [] \<Longrightarrow>
     loadSchema_try h = readCandidate h (extensionSchemaPath h)"
  by (auto simp: loadSchema_try_def split: prod.splits)

lemma loadSchema_try_folder:
  "workspaceFolders h = Some (folder # others) \<Longrightarrow>
     loadSchema_try h =
       (case readCandidate h (workspaceSchemaPath h folder) of
          (fx, Inl e) \<Rightarrow> (fx, Inl e)
        | (fx, Inr (Some schema)) \<Rightarrow> (fx, Inr (Some schema))
        | (fx, Inr None) \<Rightarrow>
            (case readCandidate h (extensionSchemaPath h) of (fx', r) \<Rightarrow> (fx @ fx', r)))"
  by (simp add: loadSchema_try_def)

lemma readCandidate_pair:
  "readCandidate h path = (fx, Inr (Some schema)) \<Longrightarrow> isCatalog schema"
  using readCandidate_result [of h path schema] by simp

lemma loadSchema_try_result:
  "loadSchema_try h = (fx, Inr (Some schema)) \<Longrightarrow> isCatalog schema"
  unfolding loadSchema_try_def
  by (auto split: option.splits list.splits prod.splits sum.splits dest: readCandidate_pair)

lemma loadSchema_isCatalog: "isCatalog (snd (loadSchema h))"
proof (cases "loadSchema_try h")
  case (Pair fx r)
  show ?thesis
  proof (cases r)
    case (Inl e)
    with Pair show ?thesis by (simp add: loadSchema_def default_isCatalog)
  next
    case (Inr found)
    show ?thesis
    proof (cases found)
      case None
      with Pair Inr show ?thesis by (simp add: loadSchema_def default_isCatalog)
    next
      case (Some schema)
      with Pair Inr have "isCatalog schema" by (simp add: loadSchema_try_result)
      with Pair Inr Some show ?thesis by (simp add: loadSchema_def)
    qed
  qed
qed

lemma demo_paths:
  "workspaceSchemaPath (demoHost (Some (lit ''/ws'' # others)) files) (lit ''/ws'') = workspaceFile"
  "extensionSchemaPath (demoHost folders files) = extensionFile"
  by (simp_all add: workspaceSchemaPath_def extensionSchemaPath_def demoHost_def
        workspaceFile_def extensionFile_def lit_def)

text \<open>
  Claim C4. When the workspace file exists, reads, parses and is a catalog, \<open>loadSchema\<close>
  returns exactly the parsed value, and the only calls it made are the existence test and
  the read of that one file: the extension file is neither tested nor read.
\<close>
theorem loadSchema_first_valid:
  "workspaceFolders h = Some (folder # others) \<Longrightarrow>
   existsSync h (workspaceSchemaPath h folder) \<Longrightarrow>
   readFileSync h (workspaceSchemaPath h folder) = Inr content \<Longrightarrow>
   JSON_parse h content = Inr schema \<Longrightarrow>
   isCatalog schema \<Longrightarrow>
   loadSchema h =
     ([ExistsSync (workspaceSchemaPath h folder), ReadFileSync (workspaceSchemaPath h folder)],
      schema)
   \<and> filesRead (fst (loadSchema h)) = [workspaceSchemaPath h folder]"
  by (simp add: loadSchema_def loadSchema_try_folder readCandidate_cases)

theorem loadSchema_first_valid_witness:
  "loadSchema validFirstHost = ([ExistsSync workspaceFile, ReadFileSync workspaceFile], customCatalog)
   \<and> filesRead (fst (loadSchema validFirstHost)) = [workspaceFile]"
proof -
  have p: "workspaceSchemaPath validFirstHost (lit ''/ws'') = workspaceFile"
    unfolding validFirstHost_def by (rule demo_paths)
  have a: "workspaceFolders validFirstHost = Some (lit ''/ws'' # [])"
    by (simp add: validFirstHost_def demoHost_def)
  have b: "existsSync validFirstHost (workspaceSchemaPath validFirstHost (lit ''/ws''))"
    unfolding p by (simp add: validFirstHost_def demoHost_def)
  have c: "readFileSync validFirstHost (workspaceSchemaPath validFirstHost (lit ''/ws''))
             = Inr customText"
    unfolding p by (simp add: validFirstHost_def demoHost_def)
  have d: "JSON_parse validFirstHost customText = Inr customCatalog"
    by (simp add: validFirstHost_def demoHost_def demoParse_def emptyTypesText_def
          customText_def lit_def)
  have e: "isCatalog customCatalog"
    by (simp add: isCatalog_def customCatalog_def isCommitType_def nonEmptyString_def lit_def)
  from loadSchema_first_valid [OF a b c d e] show ?thesis
    unfolding p .
qed


lemma hasFolder_cases:
  "(workspaceFolders h = None \<or> workspaceFolders h = Some [])
   \<or> (\<exists>folder others. workspaceFolders h = Some (folder # others))"
  by (cases "workspaceFolders h"; cases "the (workspaceFolders h)") auto

lemma loadSchema_second:
  assumes "loadSchema_try h =
             (case readCandidate h (extensionSchemaPath h) of (fx', r) \<Rightarrow> (fx @ fx', r))"
  shows "candidateCatalog h (extensionSchemaPath h) = Some schema \<Longrightarrow>
           snd (loadSchema h) = schema"
    and "candidateFails h (extensionSchemaPath h) \<Longrightarrow> snd (loadSchema h) = getDefaultSchema"
proof -
  assume "candidateCatalog h (extensionSchemaPath h) = Some schema"
  then show "snd (loadSchema h) = schema"
    by (simp add: loadSchema_def assms readCandidate_found)
next
  assume "candidateFails h (extensionSchemaPath h)"
  then consider "candidateSkipped h (extensionSchemaPath h)"
    | e where "candidateError h (extensionSchemaPath h) = Some e"
    by (auto simp: candidateFails_split)
  then show "snd (loadSchema h) = getDefaultSchema"
  proof cases
    case 1
    then have "snd (readCandidate h (extensionSchemaPath h)) = Inr None"
      by (rule readCandidate_skipped)
    then show ?thesis
      by (cases "readCandidate h (extensionSchemaPath h)") (simp add: loadSchema_def assms)
  next
    case 2
    then show ?thesis
      by (simp add: loadSchema_def assms readCandidate_error)
  qed
qed

lemma loadSchema_try_skipped:
  assumes "workspaceFolders h = Some (folder # others)"
    and "candidateSkipped h (workspaceSchemaPath h folder)"
  shows "loadSchema_try h =
           (case readCandidate h (extensionSchemaPath h) of
              (fx', r) \<Rightarrow> (fst (readCandidate h (workspaceSchemaPath h folder)) @ fx', r))"
proof -
  have "snd (readCandidate h (workspaceSchemaPath h folder)) = Inr None"
    using assms(2) by (rule readCandidate_skipped)
  then show ?thesis
    by (cases "readCandidate h (workspaceSchemaPath h folder)")
       (simp add: loadSchema_try_folder [OF assms(1)])
qed

lemma loadSchema_try_none:
  assumes "workspaceFolders h = None \<or> workspaceFolders h = Some []"
  shows "loadSchema_try h =
           (case readCandidate h (extensionSchemaPath h) of (fx', r) \<Rightarrow> ([] @ fx', r))"
  using loadSchema_no_folder [OF assms] by (simp split: prod.splits)

text \<open>When the workspace candidate throws, the one \<open>catch\<close> ends the whole resolution.\<close>

lemma loadSchema_first_error:
  assumes "workspaceFolders h = Some (folder # others)"
    and "candidateError h (workspaceSchemaPath h folder) = Some e"
  shows "loadSchema h =
     ([ExistsSync (workspaceSchemaPath h folder), ReadFileSync (workspaceSchemaPath h folder),
       ConsoleError e], getDefaultSchema)"
  by (simp add: loadSchema_def loadSchema_try_folder [OF assms(1)] readCandidate_error [OF assms(2)])

text \<open>
  Claim C3 as stated fails: with a malformed workspace file and a valid extension file, the
  result is the default catalog, not the extension file's catalog.
\<close>
theorem malformed_first_counterexample:
  "workspaceFolders malformedFirstHost = Some [lit ''/ws'']
   \<and> workspaceSchemaPath malformedFirstHost (lit ''/ws'') = workspaceFile
   \<and> extensionSchemaPath malformedFirstHost = extensionFile
   \<and> existsSync malformedFirstHost workspaceFile
   \<and> readFileSync malformedFirstHost workspaceFile = Inr malformedText
   \<and> JSON_parse malformedFirstHost malformedText = Inl SyntaxError
   \<and> existsSync malformedFirstHost extensionFile
   \<and> readFileSync malformedFirstHost extensionFile = Inr customText
   \<and> JSON_parse malformedFirstHost customText = Inr customCatalog
   \<and> isCatalog customCatalog
   \<and> snd (loadSchema malformedFirstHost) \<noteq> customCatalog
   \<and> snd (loadSchema malformedFirstHost) = getDefaultSchema"
proof -
  have p: "workspaceSchemaPath malformedFirstHost (lit ''/ws'') = workspaceFile"
    "extensionSchemaPath malformedFirstHost = extensionFile"
    unfolding malformedFirstHost_def by (rule demo_paths)+
  have f: "workspaceFolders malformedFirstHost = Some [lit ''/ws'']"
    by (simp add: malformedFirstHost_def demoHost_def)
  have files: "existsSync malformedFirstHost workspaceFile"
    "readFileSync malformedFirstHost workspaceFile = Inr malformedText"
    "existsSync malformedFirstHost extensionFile"
    "readFileSync malformedFirstHost extensionFile = Inr customText"
    by (simp_all add: malformedFirstHost_def demoHost_def workspaceFile_def extensionFile_def
          lit_def)
  have parse: "JSON_parse malformedFirstHost malformedText = Inl SyntaxError"
    "JSON_parse malformedFirstHost customText = Inr customCatalog"
    by (simp_all add: malformedFirstHost_def demoHost_def demoParse_def emptyTypesText_def
          customText_def malformedText_def lit_def)
  have cat: "isCatalog customCatalog"
    by (simp add: isCatalog_def customCatalog_def isCommitType_def nonEmptyString_def lit_def)
  have err: "candidateError malformedFirstHost
               (workspaceSchemaPath malformedFirstHost (lit ''/ws'')) = Some SyntaxError"
    unfolding p by (simp add: candidateError_def files parse)
  have res: "snd (loadSchema malformedFirstHost) = getDefaultSchema"
    using loadSchema_first_error [OF f err] by simp
  have "getDefaultSchema \<noteq> customCatalog"
    by (simp add: getDefaultSchema_def customCatalog_def)
  with p f files parse cat res show ?thesis by simp
qed

text \<open>
  Claim C3, amended. When reading or parsing the workspace file throws, the exception is
  not propagated: it is logged to the console and the hardcoded default catalog is returned,
  the extension file never being consulted. The extension file's catalog is returned when
  the workspace file is skipped, that is, missing or of the wrong shape.
\<close>
theorem loadSchema_first_throws:
  "(workspaceFolders h = Some (folder # others)
      \<and> candidateError h (workspaceSchemaPath h folder) = Some e \<longrightarrow>
    loadSchema h =
      ([ExistsSync (workspaceSchemaPath h folder), ReadFileSync (workspaceSchemaPath h folder),
        ConsoleError e], getDefaultSchema))
   \<and> (workspaceFolders h = Some (folder # others)
      \<and> candidateSkipped h (workspaceSchemaPath h folder)
      \<and> candidateCatalog h (extensionSchemaPath h) = Some schema \<longrightarrow>
    snd (loadSchema h) = schema)"
proof (intro conjI impI)
  assume "workspaceFolders h = Some (folder # others)
      \<and> candidateError h (workspaceSchemaPath h folder) = Some e"
  then show "loadSchema h =
      ([ExistsSync (workspaceSchemaPath h folder), ReadFileSync (workspaceSchemaPath h folder),
        ConsoleError e], getDefaultSchema)"
    by (simp add: loadSchema_first_error)
next
  assume a: "workspaceFolders h = Some (folder # others)
      \<and> candidateSkipped h (workspaceSchemaPath h folder)
      \<and> candidateCatalog h (extensionSchemaPath h) = Some schema"
  then have "loadSchema_try h =
           (case readCandidate h (extensionSchemaPath h) of
              (fx', r) \<Rightarrow> (fst (readCandidate h (workspaceSchemaPath h folder)) @ fx', r))"
    by (simp add: loadSchema_try_skipped)
  from loadSchema_second(1) [OF this] a show "snd (loadSchema h) = schema" by simp
qed

theorem loadSchema_first_throws_witness:
  "loadSchema malformedFirstHost =
     ([ExistsSync workspaceFile, ReadFileSync workspaceFile, ConsoleError SyntaxError],
      getDefaultSchema)"
proof -
  have p: "workspaceSchemaPath malformedFirstHost (lit ''/ws'') = workspaceFile"
    unfolding malformedFirstHost_def by (rule demo_paths)
  have f: "workspaceFolders malformedFirstHost = Some (lit ''/ws'' # [])"
    by (simp add: malformedFirstHost_def demoHost_def)
  have err: "candidateError malformedFirstHost
               (workspaceSchemaPath malformedFirstHost (lit ''/ws'')) = Some SyntaxError"
    unfolding p
    by (simp add: candidateError_def malformedFirstHost_def demoHost_def demoParse_def
          emptyTypesText_def customText_def malformedText_def lit_def)
  from loadSchema_first_throws [of malformedFirstHost "lit ''/ws''" "[]" SyntaxError] f err
  show ?thesis unfolding p by blast
qed

text \<open>
  Claim C5. \<open>loadSchema\<close> returns a catalog for every host. When every candidate is
  missing, unreadable, not JSON or of the wrong shape, it returns the default catalog, whose
  seven ids are feat, fix, docs, style, refactor, test, chore in this order.
\<close>
theorem loadSchema_default:
  "((case workspaceFolders h of
       Some (folder # others) \<Rightarrow> candidateFails h (workspaceSchemaPath h folder)
     | _ \<Rightarrow> True)
    \<and> candidateFails h (extensionSchemaPath h) \<longrightarrow>
    snd (loadSchema h) = getDefaultSchema)
   \<and> isCatalog (snd (loadSchema h))
   \<and> length (typeIds getDefaultSchema) = 7
   \<and> typeIds getDefaultSchema =
       [lit ''feat'', lit ''fix'', lit ''docs'', lit ''style'', lit ''refactor'', lit ''test'',
        lit ''chore'']"
proof (intro conjI impI)
  assume a: "(case workspaceFolders h of
       Some (folder # others) \<Rightarrow> candidateFails h (workspaceSchemaPath h folder)
     | _ \<Rightarrow> True)
    \<and> candidateFails h (extensionSchemaPath h)"
  show "snd (loadSchema h) = getDefaultSchema"
  proof -
    from hasFolder_cases [of h]
    consider (none) "workspaceFolders h = None \<or> workspaceFolders h = Some []"
      | (some) folder others where "workspaceFolders h = Some (folder # others)"
      by blast
    then show ?thesis
    proof cases
    case none
    from loadSchema_second(2) [OF loadSchema_try_none [OF none]] a show ?thesis by simp
  next
    case (some folder others)
    with a have "candidateFails h (workspaceSchemaPath h folder)" by simp
    then consider "candidateSkipped h (workspaceSchemaPath h folder)"
      | e where "candidateError h (workspaceSchemaPath h folder) = Some e"
      by (auto simp: candidateFails_split)
    then show ?thesis
    proof cases
      case 1
      from loadSchema_second(2) [OF loadSchema_try_skipped [OF some 1]] a show ?thesis by simp
    next
      case 2
      from loadSchema_first_error [OF some 2] show ?thesis by simp
    qed
  qed
  qed
next
  show "isCatalog (snd (loadSchema h))" by (rule loadSchema_isCatalog)
next
  show "length (typeIds getDefaultSchema) = 7" by (simp add: default_ids)
next
  show "typeIds getDefaultSchema =
       [lit ''feat'', lit ''fix'', lit ''docs'', lit ''style'', lit ''refactor'', lit ''test'',
        lit ''chore'']"
    by (rule default_ids)
qed

theorem loadSchema_default_witness:
  "candidateFails nothingValidHost extensionFile
   \<and> snd (loadSchema nothingValidHost) = getDefaultSchema"
proof -
  have p: "extensionSchemaPath nothingValidHost = extensionFile"
    unfolding nothingValidHost_def by (rule demo_paths)
  have f: "workspaceFolders nothingValidHost = None"
    by (simp add: nothingValidHost_def demoHost_def)
  have c: "candidateFails nothingValidHost extensionFile"
    by (simp add: candidateFails_def nothingValidHost_def demoHost_def demoParse_def
          emptyTypesText_def customText_def malformedText_def lit_def)
  from loadSchema_default [of nothingValidHost] f c p
  have "snd (loadSchema nothingValidHost) = getDefaultSchema" by simp
  with c show ?thesis by simp
qed

text \<open>
  Claim C8. A catalog with an empty \<open>types\<close> array passes \<open>validateSchema\<close>, so a
  candidate file holding it is the resolved catalog, with no commit type to select.
\<close>
theorem empty_types_accepted:
  "validateSchema emptyTypes = Inr True
   \<and> typeIds emptyTypes = []
   \<and> (workspaceFolders h = Some (folder # others)
      \<and> existsSync h (workspaceSchemaPath h folder)
      \<and> readFileSync h (workspaceSchemaPath h folder) = Inr content
      \<and> JSON_parse h content = Inr emptyTypes \<longrightarrow>
      snd (loadSchema h) = emptyTypes)
   \<and> ((workspaceFolders h = None \<or> workspaceFolders h = Some [])
      \<and> existsSync h (extensionSchemaPath h)
      \<and> readFileSync h (extensionSchemaPath h) = Inr content
      \<and> JSON_parse h content = Inr emptyTypes \<longrightarrow>
      snd (loadSchema h) = emptyTypes)"
proof -
  have v: "validateSchema emptyTypes = Inr True"
    by (simp add: validateSchema_def emptyTypes_def bindE_def)
  then have c: "isCatalog emptyTypes" by (simp add: validateSchema_spec)
  have i: "typeIds emptyTypes = []" by (simp add: typeIds_def emptyTypes_def)
  have one: "snd (loadSchema h) = emptyTypes"
    if "workspaceFolders h = Some (folder # others)
      \<and> existsSync h (workspaceSchemaPath h folder)
      \<and> readFileSync h (workspaceSchemaPath h folder) = Inr content
      \<and> JSON_parse h content = Inr emptyTypes"
    using that c by (simp add: loadSchema_def loadSchema_try_folder readCandidate_cases)
  have two: "snd (loadSchema h) = emptyTypes"
    if "(workspaceFolders h = None \<or> workspaceFolders h = Some [])
      \<and> existsSync h (extensionSchemaPath h)
      \<and> readFileSync h (extensionSchemaPath h) = Inr content
      \<and> JSON_parse h content = Inr emptyTypes"
  proof -
    from that c have "candidateCatalog h (extensionSchemaPath h) = Some emptyTypes"
      by (simp add: candidateCatalog_def)
    from loadSchema_second(1) [OF loadSchema_try_none this] that show ?thesis by simp
  qed
  from v i one two show ?thesis by blast
qed

theorem empty_types_accepted_witness:
  "validateSchema (JObj [(lit ''types'', JArr [])]) = Inr True
   \<and> snd (loadSchema emptyTypesHost) = JObj [(lit ''types'', JArr [])]"
proof -
  have p: "workspaceSchemaPath emptyTypesHost (lit ''/ws'') = workspaceFile"
    unfolding emptyTypesHost_def by (rule demo_paths)
  have f: "workspaceFolders emptyTypesHost = Some (lit ''/ws'' # [])"
    by (simp add: emptyTypesHost_def demoHost_def)
  have files: "existsSync emptyTypesHost (workspaceSchemaPath emptyTypesHost (lit ''/ws''))"
    "readFileSync emptyTypesHost (workspaceSchemaPath emptyTypesHost (lit ''/ws''))
       = Inr emptyTypesText"
    unfolding p by (simp_all add: emptyTypesHost_def demoHost_def)
  have parse: "JSON_parse emptyTypesHost emptyTypesText = Inr emptyTypes"
    by (simp add: emptyTypesHost_def demoHost_def demoParse_def)
  from empty_types_accepted [of emptyTypesHost "lit ''/ws''" "[]" emptyTypesText] f files parse
  have "validateSchema emptyTypes = Inr True \<and> snd (loadSchema emptyTypesHost) = emptyTypes"
    by blast
  then show ?thesis by (simp add: emptyTypes_def)
qed

section \<open>The message handler\<close>

lemma posted_append [simp]: "posted (xs @ ys) = posted xs @ posted ys"
  by (induction xs rule: posted.induct) simp_all

lemma builderCalls_append [simp]: "builderCalls (xs @ ys) = builderCalls xs @ builderCalls ys"
  by (induction xs rule: builderCalls.induct) simp_all

lemma posted_send [simp]: "posted (sendToWebview eng Ready command data) = [mkMessage command data]"
  by (simp add: sendToWebview_def)

lemma builderCalls_send [simp]: "builderCalls (sendToWebview eng p command data) = []"
  by (cases p) (simp_all add: sendToWebview_def)

lemma getProp_object: "isObject v \<Longrightarrow> getProp v key = Inr (fieldOf v key)"
  by (cases v) (simp_all add: isObject_def fieldOf_def)

lemma fieldMissing_nonBlank:
  "isObject data \<Longrightarrow> nonBlank (fieldOf data key) \<Longrightarrow> fieldMissing data key = Inr False"
  by (cases "fieldOf data key")
     (auto simp: fieldMissing_def getProp_object bindE_def nonBlank_def)

lemma fieldMissing_blank:
  "isObject data \<Longrightarrow> \<not> nonBlank (fieldOf data key) \<Longrightarrow>
     fieldMissing data key = Inr True \<or> fieldMissing data key = Inl TypeError"
  by (cases "fieldOf data key")
     (auto simp: fieldMissing_def getProp_object bindE_def nonBlank_def)

text \<open>The possible outcomes of \<open>handleSubmitForm\<close>, by what it posts and whom it calls.\<close>

lemma submit_not_object:
  "\<not> isObject data \<Longrightarrow>
     handleSubmitForm eng p data =
       AppendLine (lit ''Error: Invalid form data'')
         # sendToWebview eng p (lit ''error'') (JStr (lit ''Data form tidak valid''))"
  by (simp add: handleSubmitForm_def handleSubmitForm_try_def try_catch_def isObject_def)

lemma submit_rejected:
  assumes "\<not> isObject data \<or> \<not> nonBlank (fieldOf data (lit ''type''))
             \<or> \<not> nonBlank (fieldOf data (lit ''subject''))"
  shows "builderCalls (handleSubmitForm eng p data) = []
         \<and> (\<exists>msg. posted (handleSubmitForm eng Ready data) = [mkMessage (lit ''error'') (JStr msg)])"
proof (cases "isObject data")
  case False
  then show ?thesis by (simp add: submit_not_object mkMessage_def)
next
  case obj: True
  then have o: "truthy data" "typeof data = ''object''" by (simp_all add: isObject_def)
  show ?thesis
  proof (cases "nonBlank (fieldOf data (lit ''type''))")
    case False
    from fieldMissing_blank [OF obj False] show ?thesis
      by (auto simp: handleSubmitForm_def handleSubmitForm_try_def try_catch_def o mkMessage_def)
  next
    case ty: True
    with assms obj have "\<not> nonBlank (fieldOf data (lit ''subject''))" by simp
    from fieldMissing_blank [OF obj this] fieldMissing_nonBlank [OF obj ty] show ?thesis
      by (auto simp: handleSubmitForm_def handleSubmitForm_try_def try_catch_def o mkMessage_def)
  qed
qed

lemma submit_accepted:
  assumes "isObject data" and "nonBlank (fieldOf data (lit ''type''))"
    and "nonBlank (fieldOf data (lit ''subject''))"
  shows "builderCalls (handleSubmitForm eng p data) = [data]
         \<and> posted (handleSubmitForm eng Ready data) =
             (case buildCommitMessage eng data of
                Inr commitMessage \<Rightarrow> [mkMessage (lit ''commitResult'') (JStr commitMessage)]
              | Inl e \<Rightarrow>
                  [mkMessage (lit ''error'') (JStr (lit ''Gagal membuat commit message''))])"
proof -
  from assms(1) have o: "truthy data" "typeof data = ''object''"
    by (simp_all add: isObject_def)
  from fieldMissing_nonBlank [OF assms(1) assms(2)] fieldMissing_nonBlank [OF assms(1) assms(3)]
  show ?thesis
    by (cases "buildCommitMessage eng data")
       (simp_all add: handleSubmitForm_def handleSubmitForm_try_def try_catch_def o)
qed

lemma build_returns:
  assumes "isObject data" and "nonBlank (fieldOf data (lit ''type''))"
    and "nonBlank (fieldOf data (lit ''subject''))"
    and "isString (fieldOf data (lit ''scope''))"
    and "\<not> truthy (fieldOf data (lit ''body'')) \<or> isString (fieldOf data (lit ''body''))"
  shows "\<exists>commitMessage. buildCommitMessage eng data = Inr commitMessage"
proof -
  from assms(2) obtain t where t: "fieldOf data (lit ''type'') = JStr t"
    by (cases "fieldOf data (lit ''type'')") (simp_all add: nonBlank_def)
  from assms(3) obtain su where su: "fieldOf data (lit ''subject'') = JStr su"
    by (cases "fieldOf data (lit ''subject'')") (simp_all add: nonBlank_def)
  from assms(4) obtain sc where sc: "fieldOf data (lit ''scope'') = JStr sc"
    by (cases "fieldOf data (lit ''scope'')") (simp_all add: isString_def)
  obtain header where h: "formatHeader eng (JStr t) (JStr sc) (JStr su) = Inr header"
    by (simp add: header_wellTyped)
  from assms(5) show ?thesis
    by (cases "fieldOf data (lit ''body'')")
       (simp_all add: buildCommitMessage_def getProp_object [OF assms(1)] t su sc h bindE_def
          formatBody_def isString_def)
qed


text \<open>
  Claim C9, amended. A payload that is not an object, or whose type or subject is not a
  string with something left after trimming, never reaches the builder, and with the webview
  available one error message is posted. Any other payload reaches the builder exactly once;
  what is posted is the commit result when the builder returns and an error when it throws.
  The builder returns when moreover the scope is a string and the body is a string or falsy.
\<close>
theorem submitForm_validation:
  "(\<not> isObject data \<or> \<not> nonBlank (fieldOf data (lit ''type''))
      \<or> \<not> nonBlank (fieldOf data (lit ''subject'')) \<longrightarrow>
      builderCalls (handleSubmitForm eng p data) = []
      \<and> (\<exists>msg. posted (handleSubmitForm eng Ready data) = [mkMessage (lit ''error'') (JStr msg)]))
   \<and> (isObject data \<and> nonBlank (fieldOf data (lit ''type''))
      \<and> nonBlank (fieldOf data (lit ''subject'')) \<longrightarrow>
      builderCalls (handleSubmitForm eng p data) = [data]
      \<and> posted (handleSubmitForm eng Ready data) =
          (case buildCommitMessage eng data of
             Inr commitMessage \<Rightarrow> [mkMessage (lit ''commitResult'') (JStr commitMessage)]
           | Inl e \<Rightarrow> [mkMessage (lit ''error'') (JStr (lit ''Gagal membuat commit message''))]))
   \<and> (isObject data \<and> nonBlank (fieldOf data (lit ''type''))
      \<and> nonBlank (fieldOf data (lit ''subject''))
      \<and> isString (fieldOf data (lit ''scope''))
      \<and> (\<not> truthy (fieldOf data (lit ''body'')) \<or> isString (fieldOf data (lit ''body''))) \<longrightarrow>
      (\<exists>commitMessage.
         buildCommitMessage eng data = Inr commitMessage
         \<and> posted (handleSubmitForm eng Ready data) =
             [mkMessage (lit ''commitResult'') (JStr commitMessage)]))"
proof (intro conjI)
  show "\<not> isObject data \<or> \<not> nonBlank (fieldOf data (lit ''type''))
      \<or> \<not> nonBlank (fieldOf data (lit ''subject'')) \<longrightarrow>
      builderCalls (handleSubmitForm eng p data) = []
      \<and> (\<exists>msg. posted (handleSubmitForm eng Ready data) = [mkMessage (lit ''error'') (JStr msg)])"
    using submit_rejected [of data eng p] by blast
next
  show "isObject data \<and> nonBlank (fieldOf data (lit ''type''))
      \<and> nonBlank (fieldOf data (lit ''subject'')) \<longrightarrow>
      builderCalls (handleSubmitForm eng p data) = [data]
      \<and> posted (handleSubmitForm eng Ready data) =
          (case buildCommitMessage eng data of
             Inr commitMessage \<Rightarrow> [mkMessage (lit ''commitResult'') (JStr commitMessage)]
           | Inl e \<Rightarrow> [mkMessage (lit ''error'') (JStr (lit ''Gagal membuat commit message''))])"
    using submit_accepted [of data eng p] by blast
next
  show "isObject data \<and> nonBlank (fieldOf data (lit ''type''))
      \<and> nonBlank (fieldOf data (lit ''subject''))
      \<and> isString (fieldOf data (lit ''scope''))
      \<and> (\<not> truthy (fieldOf data (lit ''body'')) \<or> isString (fieldOf data (lit ''body''))) \<longrightarrow>
      (\<exists>commitMessage.
         buildCommitMessage eng data = Inr commitMessage
         \<and> posted (handleSubmitForm eng Ready data) =
             [mkMessage (lit ''commitResult'') (JStr commitMessage)])"
  proof
    assume a: "isObject data \<and> nonBlank (fieldOf data (lit ''type''))
      \<and> nonBlank (fieldOf data (lit ''subject''))
      \<and> isString (fieldOf data (lit ''scope''))
      \<and> (\<not> truthy (fieldOf data (lit ''body'')) \<or> isString (fieldOf data (lit ''body'')))"
    then obtain commitMessage where m: "buildCommitMessage eng data = Inr commitMessage"
      using build_returns [of data eng] by blast
    from a have "posted (handleSubmitForm eng Ready data) =
          (case buildCommitMessage eng data of
             Inr commitMessage \<Rightarrow> [mkMessage (lit ''commitResult'') (JStr commitMessage)]
           | Inl e \<Rightarrow> [mkMessage (lit ''error'') (JStr (lit ''Gagal membuat commit message''))])"
      by (simp add: submit_accepted)
    with m show "\<exists>commitMessage.
         buildCommitMessage eng data = Inr commitMessage
         \<and> posted (handleSubmitForm eng Ready data) =
             [mkMessage (lit ''commitResult'') (JStr commitMessage)]"
      by simp
  qed
qed

lemma payload_facts:
  "isObject noScopePayload"
  "nonBlank (fieldOf noScopePayload (lit ''type''))"
  "nonBlank (fieldOf noScopePayload (lit ''subject''))"
  "isObject fullPayload"
  "nonBlank (fieldOf fullPayload (lit ''type''))"
  "nonBlank (fieldOf fullPayload (lit ''subject''))"
  "isString (fieldOf fullPayload (lit ''scope''))"
  "isString (fieldOf fullPayload (lit ''body''))"
  by code_simp+

text \<open>
  Claim C9 as stated fails: a payload with type and subject but no scope makes the builder
  throw, and the handler posts an error instead of a commit result.
\<close>
theorem submitForm_counterexample:
  "isObject noScopePayload
   \<and> nonBlank (fieldOf noScopePayload (lit ''type''))
   \<and> nonBlank (fieldOf noScopePayload (lit ''subject''))
   \<and> fieldOf noScopePayload (lit ''scope'') = JUndefined
   \<and> buildCommitMessage demoEngine noScopePayload = Inl TypeError
   \<and> builderCalls (handleSubmitForm demoEngine Ready noScopePayload) = [noScopePayload]
   \<and> posted (handleSubmitForm demoEngine Ready noScopePayload) =
       [mkMessage (lit ''error'') (JStr (lit ''Gagal membuat commit message''))]"
proof -
  have s: "fieldOf noScopePayload (lit ''scope'') = JUndefined"
    by code_simp
  have b: "buildCommitMessage demoEngine noScopePayload = Inl TypeError"
    by code_simp
  from submit_accepted [OF payload_facts(1-3), of demoEngine Ready] b
  have "builderCalls (handleSubmitForm demoEngine Ready noScopePayload) = [noScopePayload]
   \<and> posted (handleSubmitForm demoEngine Ready noScopePayload) =
       [mkMessage (lit ''error'') (JStr (lit ''Gagal membuat commit message''))]"
    by simp
  with payload_facts(1-3) s b show ?thesis by simp
qed

theorem submitForm_validation_witness:
  "builderCalls (handleSubmitForm demoEngine Ready fullPayload) = [fullPayload]
   \<and> posted (handleSubmitForm demoEngine Ready fullPayload) =
       [mkMessage (lit ''commitResult'') (JStr (lit ''fix: perbaiki bug''))]
   \<and> builderCalls (handleSubmitForm demoEngine Ready JNull) = []"
proof -
  have b: "buildCommitMessage demoEngine fullPayload = Inr (lit ''fix: perbaiki bug'')"
    by code_simp
  have n: "\<not> isObject JNull" by (simp add: isObject_def)
  from submitForm_validation [of fullPayload demoEngine Ready] payload_facts(4-8) b
  have one: "builderCalls (handleSubmitForm demoEngine Ready fullPayload) = [fullPayload]
   \<and> posted (handleSubmitForm demoEngine Ready fullPayload) =
       [mkMessage (lit ''commitResult'') (JStr (lit ''fix: perbaiki bug''))]"
    by simp
  from submitForm_validation [of JNull demoEngine Ready] n
  have "builderCalls (handleSubmitForm demoEngine Ready JNull) = []"
    by blast
  with one show ?thesis by simp
qed

lemma handleMessage_invalid:
  assumes "\<not> isObject message \<or> \<not> truthy (fieldOf message (lit ''command''))"
  shows "handleMessage eng h p message = invalidFormat eng p"
proof (cases "isObject message")
  case False
  then show ?thesis by (simp add: handleMessage_def try_catch_def isObject_def)
next
  case True
  then have o: "truthy message" "typeof message = ''object''" by (simp_all add: isObject_def)
  from assms True have "\<not> truthy (fieldOf message (lit ''command''))" by simp
  then show ?thesis
    by (simp add: handleMessage_def try_catch_def o getProp_object [OF True])
qed

lemma handleMessage_unknown:
  assumes "isObject message" and "truthy (fieldOf message (lit ''command''))"
    and "convertible (fieldOf message (lit ''command''))"
    and "fieldOf message (lit ''command'') \<noteq> JStr (lit ''webviewReady'')"
    and "fieldOf message (lit ''command'') \<noteq> JStr (lit ''loadSchema'')"
    and "fieldOf message (lit ''command'') \<noteq> JStr (lit ''submitForm'')"
  shows "handleMessage eng h p message =
           [AppendLine (lit ''Received message: '' @ toString eng (fieldOf message (lit ''command''))),
            AppendLine (lit ''Warning: Unknown command: ''
                          @ toString eng (fieldOf message (lit ''command'')))]"
proof -
  from assms(1) have o: "truthy message" "typeof message = ''object''"
    by (simp_all add: isObject_def)
  show ?thesis
    by (simp add: handleMessage_def try_catch_def o getProp_object [OF assms(1)] assms(2-6)
          dispatch_def interpolate_def)
qed

lemma handleMessage_throws:
  assumes "isObject message" and "truthy (fieldOf message (lit ''command''))"
    and "\<not> convertible (fieldOf message (lit ''command''))"
  shows "handleMessage eng h p message =
           AppendLine (lit ''Error handling message: '' @ errorMessage eng TypeError)
             # sendToWebview eng p (lit ''error'')
                 (JStr (lit ''Terjadi kesalahan: '' @ errorMessage eng TypeError))"
proof -
  from assms(1) have o: "truthy message" "typeof message = ''object''"
    by (simp_all add: isObject_def)
  show ?thesis
    by (simp add: handleMessage_def try_catch_def o getProp_object [OF assms(1)] assms(2-3)
          interpolate_def)
qed

text \<open>
  Claim C10, amended. A message that is an object with a truthy command other than
  \<open>webviewReady\<close>, \<open>loadSchema\<close> and \<open>submitForm\<close> that converts to a string (every
  string, number and boolean does) only produces two log lines and nothing is posted. A
  message that is not an object, or whose command is absent or falsy, is logged as invalid
  and handed to \<open>sendToWebview\<close> as an error, which posts it when the webview is
  available. A truthy command whose conversion to a string throws is answered by the
  \<open>catch\<close> of \<open>handleMessage\<close>, again with an error message.
\<close>

theorem handleMessage_routing:
  "(isObject message \<and> truthy (fieldOf message (lit ''command''))
      \<and> convertible (fieldOf message (lit ''command''))
      \<and> fieldOf message (lit ''command'') \<noteq> JStr (lit ''webviewReady'')
      \<and> fieldOf message (lit ''command'') \<noteq> JStr (lit ''loadSchema'')
      \<and> fieldOf message (lit ''command'') \<noteq> JStr (lit ''submitForm'') \<longrightarrow>
      handleMessage eng h p message =
        [AppendLine (lit ''Received message: '' @ toString eng (fieldOf message (lit ''command''))),
         AppendLine (lit ''Warning: Unknown command: ''
                       @ toString eng (fieldOf message (lit ''command'')))]
      \<and> posted (handleMessage eng h p message) = [])
   \<and> (\<not> isObject message \<or> \<not> truthy (fieldOf message (lit ''command'')) \<longrightarrow>
      handleMessage eng h p message =
        AppendLine (lit ''Error: Invalid message format received'')
          # sendToWebview eng p (lit ''error'') (JStr (lit ''Format message tidak valid''))
      \<and> posted (handleMessage eng h Ready message) =
          [mkMessage (lit ''error'') (JStr (lit ''Format message tidak valid''))])
   \<and> (isObject message \<and> truthy (fieldOf message (lit ''command''))
      \<and> \<not> convertible (fieldOf message (lit ''command'')) \<longrightarrow>
      handleMessage eng h p message =
        AppendLine (lit ''Error handling message: '' @ errorMessage eng TypeError)
          # sendToWebview eng p (lit ''error'')
              (JStr (lit ''Terjadi kesalahan: '' @ errorMessage eng TypeError))
      \<and> posted (handleMessage eng h Ready message) =
          [mkMessage (lit ''error'')
             (JStr (lit ''Terjadi kesalahan: '' @ errorMessage eng TypeError))])"
proof (intro conjI)
  show "isObject message \<and> truthy (fieldOf message (lit ''command''))
      \<and> convertible (fieldOf message (lit ''command''))
      \<and> fieldOf message (lit ''command'') \<noteq> JStr (lit ''webviewReady'')
      \<and> fieldOf message (lit ''command'') \<noteq> JStr (lit ''loadSchema'')
      \<and> fieldOf message (lit ''command'') \<noteq> JStr (lit ''submitForm'') \<longrightarrow>
      handleMessage eng h p message =
        [AppendLine (lit ''Received message: '' @ toString eng (fieldOf message (lit ''command''))),
         AppendLine (lit ''Warning: Unknown command: ''
                       @ toString eng (fieldOf message (lit ''command'')))]
      \<and> posted (handleMessage eng h p message) = []"
    by (simp add: handleMessage_unknown)
next
  show "\<not> isObject message \<or> \<not> truthy (fieldOf message (lit ''command'')) \<longrightarrow>
      handleMessage eng h p message =
        AppendLine (lit ''Error: Invalid message format received'')
          # sendToWebview eng p (lit ''error'') (JStr (lit ''Format message tidak valid''))
      \<and> posted (handleMessage eng h Ready message) =
          [mkMessage (lit ''error'') (JStr (lit ''Format message tidak valid''))]"
    using handleMessage_invalid [of message eng h p] handleMessage_invalid [of message eng h Ready]
    by (simp add: invalidFormat_def)
next
  show "isObject message \<and> truthy (fieldOf message (lit ''command''))
      \<and> \<not> convertible (fieldOf message (lit ''command'')) \<longrightarrow>
      handleMessage eng h p message =
        AppendLine (lit ''Error handling message: '' @ errorMessage eng TypeError)
          # sendToWebview eng p (lit ''error'')
              (JStr (lit ''Terjadi kesalahan: '' @ errorMessage eng TypeError))
      \<and> posted (handleMessage eng h Ready message) =
          [mkMessage (lit ''error'')
             (JStr (lit ''Terjadi kesalahan: '' @ errorMessage eng TypeError))]"
    by (simp add: handleMessage_throws)
qed

text \<open>
  Claim C10 as stated fails: the command of a message can be the empty string, which is none
  of the three known commands, and the handler answers it with an error message.
\<close>
theorem handleMessage_counterexample:
  "isObject emptyCommandMessage
   \<and> fieldOf emptyCommandMessage (lit ''command'') = JStr []
   \<and> JStr [] \<noteq> JStr (lit ''webviewReady'')
   \<and> JStr [] \<noteq> JStr (lit ''loadSchema'')
   \<and> JStr [] \<noteq> JStr (lit ''submitForm'')
   \<and> posted (handleMessage demoEngine nothingValidHost Ready emptyCommandMessage) =
       [mkMessage (lit ''error'') (JStr (lit ''Format message tidak valid''))]"
proof -
  have o: "isObject emptyCommandMessage"
    and c: "fieldOf emptyCommandMessage (lit ''command'') = JStr []"
    by (simp_all add: isObject_def emptyCommandMessage_def fieldOf_def)
  have n: "JStr [] \<noteq> JStr (lit ''webviewReady'')" "JStr [] \<noteq> JStr (lit ''loadSchema'')"
    "JStr [] \<noteq> JStr (lit ''submitForm'')"
    by (simp_all add: lit_def)
  have "\<not> isObject emptyCommandMessage \<or> \<not> truthy (fieldOf emptyCommandMessage (lit ''command''))"
    by (simp add: c)
  from handleMessage_invalid [OF this, of demoEngine nothingValidHost Ready]
  have "posted (handleMessage demoEngine nothingValidHost Ready emptyCommandMessage) =
       [mkMessage (lit ''error'') (JStr (lit ''Format message tidak valid''))]"
    by (simp add: invalidFormat_def)
  with o c n show ?thesis by simp
qed

theorem handleMessage_routing_witness:
  "handleMessage demoEngine nothingValidHost Ready pingMessage =
     [AppendLine (lit ''Received message: ping''), AppendLine (lit ''Warning: Unknown command: ping'')]
   \<and> posted (handleMessage demoEngine nothingValidHost Ready JNull) =
       [mkMessage (lit ''error'') (JStr (lit ''Format message tidak valid''))]
   \<and> posted (handleMessage demoEngine nothingValidHost Ready unprintableMessage) =
       [mkMessage (lit ''error'') (JStr (lit ''Terjadi kesalahan: error''))]"
proof -
  have c: "fieldOf pingMessage (lit ''command'') = JStr (lit ''ping'')"
    by (simp add: pingMessage_def fieldOf_def)
  have a: "isObject pingMessage \<and> truthy (fieldOf pingMessage (lit ''command''))
      \<and> convertible (fieldOf pingMessage (lit ''command''))
      \<and> fieldOf pingMessage (lit ''command'') \<noteq> JStr (lit ''webviewReady'')
      \<and> fieldOf pingMessage (lit ''command'') \<noteq> JStr (lit ''loadSchema'')
      \<and> fieldOf pingMessage (lit ''command'') \<noteq> JStr (lit ''submitForm'')"
    unfolding c by (simp add: isObject_def pingMessage_def lit_def)
  have t: "lit ''Received message: '' @ toString demoEngine (JStr (lit ''ping''))
             = lit ''Received message: ping''"
    "lit ''Warning: Unknown command: '' @ toString demoEngine (JStr (lit ''ping''))
             = lit ''Warning: Unknown command: ping''"
    by (simp_all add: demoEngine_def lit_def)
  from handleMessage_routing [of pingMessage demoEngine nothingValidHost Ready] a
  have one: "handleMessage demoEngine nothingValidHost Ready pingMessage =
     [AppendLine (lit ''Received message: ping''), AppendLine (lit ''Warning: Unknown command: ping'')]"
    unfolding c t by blast
  have n: "\<not> isObject JNull" by (simp add: isObject_def)
  from handleMessage_routing [of JNull demoEngine nothingValidHost Ready] n
  have two: "posted (handleMessage demoEngine nothingValidHost Ready JNull) =
       [mkMessage (lit ''error'') (JStr (lit ''Format message tidak valid''))]"
    by blast
  have u: "isObject unprintableMessage \<and> truthy (fieldOf unprintableMessage (lit ''command''))
      \<and> \<not> convertible (fieldOf unprintableMessage (lit ''command''))"
    by (simp add: isObject_def unprintableMessage_def fieldOf_def)
  have m: "lit ''Terjadi kesalahan: '' @ errorMessage demoEngine TypeError
             = lit ''Terjadi kesalahan: error''"
    by (simp add: demoEngine_def lit_def)
  from handleMessage_routing [of unprintableMessage demoEngine nothingValidHost Ready] u
  have "posted (handleMessage demoEngine nothingValidHost Ready unprintableMessage) =
       [mkMessage (lit ''error'') (JStr (lit ''Terjadi kesalahan: '' @ errorMessage demoEngine TypeError))]"
    by blast
  with one two show ?thesis unfolding m by simp
qed

end
